theory Spec2Isabelle
  imports Main "HOL-Library.Product_Lexorder" "HOL-Library.Sublist"
begin

section \<open>Earthquake observatory: the data pipeline of \<^verbatim>\<open>streamlit_app.py\<close>\<close>

text \<open>
  The script fetches a feed, keeps the features that have a magnitude and a depth,
  enriches each with Central-time fields and a country label, filters the table by
  year and country and derives grouped counts. Python values are modelled as follows:
  a \<^verbatim>\<open>str\<close> is the list of its code points, a JSON value that may be
  \<^verbatim>\<open>null\<close> is an \<open>option\<close>, JSON numbers that are only copied are a
  type parameter, instants are integers counting milliseconds since the epoch, an
  exception is a value of type \<open>error\<close> on the left of a sum.
\<close>

subsection \<open>Strings and errors\<close>

type_synonym pystr = "nat list"

definition str :: "string \<Rightarrow> pystr" where
  "str s = map of_char s"

datatype error = KeyError pystr | TypeError | AttributeError

text \<open>The code points used by the pattern: the comma and the line feed.\<close>

definition COMMA :: nat where
  "COMMA = 44"

definition LF :: nat where
  "LF = 10"

text \<open>
  The class \<^verbatim>\<open>\s\<close> of a \<^verbatim>\<open>str\<close> pattern: the Unicode white space
  of \<^verbatim>\<open>str.isspace\<close>.
\<close>

definition is_space :: "nat \<Rightarrow> bool" where
  "is_space c = (c \<in> set [9, 10, 11, 12, 13, 28, 29, 30, 31, 32, 133, 160, 5760,
     8192, 8193, 8194, 8195, 8196, 8197, 8198, 8199, 8200, 8201, 8202,
     8232, 8233, 8239, 8287, 12288])"

subsection \<open>The pattern \<^verbatim>\<open>,\s*(.*)$\<close>\<close>

text \<open>
  \<^verbatim>\<open>re.search(r",\s*(.*)$", x)\<close>, as the backtracking matcher runs it. Without
  flags, \<^verbatim>\<open>$\<close> matches at the end of the string and just before a line feed
  that ends the string, and \<^verbatim>\<open>.\<close> matches every character but the line feed.
  Both stars are greedy: each first takes one more character and gives it back only
  when the rest of the pattern fails. The search tries the start positions from left
  to right and returns group 1 of the first match.
\<close>

definition at_dollar :: "pystr \<Rightarrow> bool" where
  "at_dollar r = (r = [] \<or> r = [LF])"

fun dotstar_dollar :: "pystr \<Rightarrow> pystr option" where
  "dotstar_dollar [] = Some []"
| "dotstar_dollar (c # cs) =
     (if c \<noteq> LF then
        (case dotstar_dollar cs of
           Some g \<Rightarrow> Some (c # g)
         | None \<Rightarrow> if at_dollar (c # cs) then Some [] else None)
      else if at_dollar (c # cs) then Some [] else None)"

fun spaces_group :: "pystr \<Rightarrow> pystr option" where
  "spaces_group [] = dotstar_dollar []"
| "spaces_group (c # cs) =
     (if is_space c then
        (case spaces_group cs of
           Some g \<Rightarrow> Some g
         | None \<Rightarrow> dotstar_dollar (c # cs))
      else dotstar_dollar (c # cs))"

fun re_search :: "pystr \<Rightarrow> pystr option" where
  "re_search [] = None"
| "re_search (c # cs) =
     (if c = COMMA then
        (case spaces_group cs of
           Some g \<Rightarrow> Some g
         | None \<Rightarrow> re_search cs)
      else re_search cs)"

text \<open>
  The function applied to the \<^verbatim>\<open>Place\<close> column (line 43):
  \<^verbatim>\<open>lambda x: re.search(r",\s*(.*)$", x).group(1) if "," in x else "Unknown"\<close>.
  On \<^verbatim>\<open>None\<close> the test \<^verbatim>\<open>"," in x\<close> raises \<^verbatim>\<open>TypeError\<close>; when the
  search finds no match, \<^verbatim>\<open>.group\<close> on \<^verbatim>\<open>None\<close> raises
  \<^verbatim>\<open>AttributeError\<close>.
\<close>

definition country_of :: "pystr option \<Rightarrow> error + pystr" where
  "country_of x =
     (case x of
        None \<Rightarrow> Inl TypeError
      | Some s \<Rightarrow>
          if COMMA \<in> set s then
            (case re_search s of
               None \<Rightarrow> Inl AttributeError
             | Some g \<Rightarrow> Inr g)
          else Inr (str ''Unknown''))"

text \<open>
  Two operations on strings in which the result of the search is stated: the part of a
  string after its first comma, and a string without its leading white space.
\<close>

definition after_first_comma :: "pystr \<Rightarrow> pystr" where
  "after_first_comma s = tl (dropWhile (\<lambda>c. c \<noteq> COMMA) s)"

definition lstrip :: "pystr \<Rightarrow> pystr" where
  "lstrip s = dropWhile is_space s"

text \<open>The label in one expression, for a place without a line feed.\<close>

definition label_of :: "pystr \<Rightarrow> pystr" where
  "label_of s = (if COMMA \<in> set s then lstrip (after_first_comma s) else str ''Unknown'')"

subsection \<open>The feed and the normalizer (lines 24--36)\<close>

text \<open>
  One feature of the feed, flattened: \<^verbatim>\<open>d["properties"]\<close> gives place, mag and
  time, \<^verbatim>\<open>d["geometry"]["coordinates"]\<close> is \<^verbatim>\<open>[lon, lat, depth]\<close>. The
  place, the magnitude and the depth may be \<^verbatim>\<open>null\<close>.
\<close>

record 'n raw_feature =
  place :: "pystr option"
  mag :: "'n option"
  time :: int
  lon :: 'n
  lat :: 'n
  depth :: "'n option"

text \<open>The dictionary appended to \<^verbatim>\<open>records\<close>, one row of the first frame.\<close>

record 'n row =
  Place :: "pystr option"
  Magnitude :: 'n
  Time_UTC :: int
  Depth_km :: 'n
  Longitude :: 'n
  Latitude :: 'n

text \<open>
  \<^verbatim>\<open>pd.to_datetime(p["time"], unit="ms")\<close>: the instant that many milliseconds
  after the epoch. Instants are kept as that count, so the conversion changes nothing
  in the model; the 64-bit nanosecond range of a pandas timestamp (years 1677 to 2262)
  is not modelled.
\<close>

definition to_datetime :: "int \<Rightarrow> int" where
  "to_datetime ms = ms"

definition record_of :: "'n raw_feature \<Rightarrow> 'n row" where
  "record_of d =
     \<lparr>Place = place d, Magnitude = the (mag d), Time_UTC = to_datetime (time d),
      Depth_km = the (depth d), Longitude = lon d, Latitude = lat d\<rparr>"

text \<open>The loop over \<^verbatim>\<open>data\<close>, with \<^verbatim>\<open>records\<close> as the accumulator.\<close>

fun normalize_loop :: "'n raw_feature list \<Rightarrow> 'n row list \<Rightarrow> 'n row list" where
  "normalize_loop [] records = records"
| "normalize_loop (d # ds) records =
     (if mag d = None \<or> depth d = None then normalize_loop ds records
      else normalize_loop ds (records @ [record_of d]))"

definition normalize :: "'n raw_feature list \<Rightarrow> 'n row list" where
  "normalize data = normalize_loop data []"

subsection \<open>Central time (lines 39--42)\<close>

text \<open>
  A time zone is its table of transitions, as the zone database ships it: the offset
  from UTC before the first transition, then the instants (in UTC, ascending) at which
  the offset changes, each with the offset in force from then on. Offsets are in
  milliseconds. The table of \<^verbatim>\<open>America/Chicago\<close> is data of the zone database
  and is a parameter here.
\<close>

record zone =
  initial_offset :: int
  transitions :: "(int \<times> int) list"

fun offset_scan :: "int \<Rightarrow> (int \<times> int) list \<Rightarrow> int \<Rightarrow> int" where
  "offset_scan cur [] t = cur"
| "offset_scan cur ((u, off) # rest) t = (if u \<le> t then offset_scan off rest t else cur)"

definition utcoffset_at :: "zone \<Rightarrow> int \<Rightarrow> int" where
  "utcoffset_at z t = offset_scan (initial_offset z) (transitions z) t"

text \<open>A zone-aware timestamp: the instant and the offset of its zone at that instant.\<close>

record tstamp =
  instant :: int
  utcoffset :: int

definition tz_convert :: "zone \<Rightarrow> int \<Rightarrow> tstamp" where
  "tz_convert z t = \<lparr>instant = t, utcoffset = utcoffset_at z t\<rparr>"

definition HOUR_MS :: int where
  "HOUR_MS = 3600000"

definition DAY_MS :: int where
  "DAY_MS = 86400000"

definition wall_clock :: "tstamp \<Rightarrow> int" where
  "wall_clock ts = instant ts + utcoffset ts"

text \<open>
  The Gregorian date of a day number (days since 1970-01-01), computed the way the
  datetime fields of pandas are: the year and the day within it from the 400-year
  cycle counted from 2000, then the month from the table of month lengths. The scan of
  the table ends within it, since the day within the year is less than the length of
  the year (lemma \<open>yearsdays_bound\<close> below).
\<close>

definition is_leapyear :: "int \<Rightarrow> bool" where
  "is_leapyear y = (y mod 4 = 0 \<and> (y mod 100 \<noteq> 0 \<or> y mod 400 = 0))"

definition days_to_yearsdays :: "int \<Rightarrow> int \<times> int" where
  "days_to_yearsdays days0 =
     (let days = days0 - (365 * 30 + 7);
          year = 400 * (days div 146097);
          days = days mod 146097
      in if days \<ge> 366 then
           (let year = year + 100 * ((days - 1) div 36524);
                days = (days - 1) mod 36524
            in if days \<ge> 365 then
                 (let year = year + 4 * ((days + 1) div 1461);
                      days = (days + 1) mod 1461
                  in if days \<ge> 366 then (year + (days - 1) div 365 + 2000, (days - 1) mod 365)
                     else (year + 2000, days))
               else (year + 2000, days))
         else (year + 2000, days))"

definition month_lengths :: "bool \<Rightarrow> int list" where
  "month_lengths leap =
     (if leap then [31, 29, 31, 30, 31, 30, 31, 31, 30, 31, 30, 31]
      else [31, 28, 31, 30, 31, 30, 31, 31, 30, 31, 30, 31])"

fun month_scan :: "int list \<Rightarrow> int \<Rightarrow> int \<Rightarrow> int \<times> int" where
  "month_scan [] i days = (i, days + 1)"
| "month_scan (l # ls) i days =
     (if days < l then (i + 1, days + 1) else month_scan ls (i + 1) (days - l))"

type_synonym date = "int \<times> int \<times> int"

definition civil_of_days :: "int \<Rightarrow> date" where
  "civil_of_days n =
     (case days_to_yearsdays n of
        (y, doy) \<Rightarrow> (case month_scan (month_lengths (is_leapyear y)) 0 doy of
                      (m, d) \<Rightarrow> (y, m, d)))"

definition hour_of :: "tstamp \<Rightarrow> int" where
  "hour_of ts = (wall_clock ts div HOUR_MS) mod 24"

definition date_of :: "tstamp \<Rightarrow> date" where
  "date_of ts = civil_of_days (wall_clock ts div DAY_MS)"

definition year_of :: "tstamp \<Rightarrow> int" where
  "year_of ts = fst (civil_of_days (wall_clock ts div DAY_MS))"

subsection \<open>The table (lines 38--44)\<close>

record 'n event = "'n row" +
  Time_Central :: tstamp
  Hour :: int
  Date :: date
  Year :: int
  Country :: pystr

text \<open>
  \<^verbatim>\<open>df["Place"].apply(...)\<close>: the function runs on the rows in order and the
  first exception ends the call.
\<close>

fun apply_country :: "pystr option list \<Rightarrow> error + pystr list" where
  "apply_country [] = Inr []"
| "apply_country (x # xs) =
     (case country_of x of
        Inl e \<Rightarrow> Inl e
      | Inr c \<Rightarrow> (case apply_country xs of Inl e \<Rightarrow> Inl e | Inr cs \<Rightarrow> Inr (c # cs)))"

definition enrich :: "zone \<Rightarrow> 'n row \<Rightarrow> pystr \<Rightarrow> 'n event" where
  "enrich z r c =
     (let tc = tz_convert z (Time_UTC r)
      in \<lparr>Place = Place r, Magnitude = Magnitude r, Time_UTC = Time_UTC r,
          Depth_km = Depth_km r, Longitude = Longitude r, Latitude = Latitude r,
          Time_Central = tc, Hour = hour_of tc, Date = date_of tc, Year = year_of tc,
          Country = c\<rparr>)"

text \<open>
  \<^verbatim>\<open>load_data\<close> after the fetch. \<^verbatim>\<open>pd.DataFrame([])\<close> has no columns, so
  with no record left \<^verbatim>\<open>df["Time_UTC"]\<close> on line 39 raises
  \<^verbatim>\<open>KeyError\<close>. Otherwise lines 39 to 42 add the time columns and line 43 the
  country; the columns are aligned by row, so the table is built row by row here.
\<close>

definition load_data :: "zone \<Rightarrow> 'n raw_feature list \<Rightarrow> error + 'n event list" where
  "load_data z data =
     (let records = normalize data
      in if records = [] then Inl (KeyError (str ''Time_UTC''))
         else (case apply_country (map Place records) of
                 Inl e \<Rightarrow> Inl e
               | Inr cs \<Rightarrow> Inr (map (\<lambda>(r, c). enrich z r c) (zip records cs))))"

subsection \<open>The filter (lines 53--55)\<close>

definition filtered_df :: "int \<Rightarrow> pystr list \<Rightarrow> 'n event list \<Rightarrow> 'n event list" where
  "filtered_df year_filter country_filter df =
     (let fd = filter (\<lambda>r. Year r = year_filter) df
      in if country_filter \<noteq> [] then filter (\<lambda>r. Country r \<in> set country_filter) fd
         else fd)"

subsection \<open>The aggregations (lines 77--87, 91, 112)\<close>

text \<open>
  Grouped counts: the keys are numbered in order of first appearance and counted, then
  the groups are put in key order (\<^verbatim>\<open>groupby\<close> sorts by default).
\<close>

fun bump :: "'k \<Rightarrow> ('k \<times> nat) list \<Rightarrow> ('k \<times> nat) list" where
  "bump k [] = [(k, 1)]"
| "bump k ((k', n) # rest) = (if k = k' then (k', Suc n) # rest else (k', n) # bump k rest)"

definition group_sizes :: "'k list \<Rightarrow> ('k \<times> nat) list" where
  "group_sizes ks = fold bump ks []"

definition heat_df :: "'n event list \<Rightarrow> ((date \<times> int) \<times> nat) list" where
  "heat_df fd = sort_key fst (group_sizes (map (\<lambda>r. (Date r, Hour r)) fd))"

text \<open>
  The bar chart counts the rows of each country (\<^verbatim>\<open>count()\<close>) and orders the
  bars by falling count (\<^verbatim>\<open>sort='-x'\<close>).
\<close>

definition country_chart :: "'n event list \<Rightarrow> (pystr \<times> nat) list" where
  "country_chart fd = sort_key (\<lambda>(c, n). - int n) (group_sizes (map Country fd))"

text \<open>
  \<^verbatim>\<open>set_index("Time_Central").resample("1H").size()\<close>. The bins are closed on the
  left and labelled by their left edge. The grid is anchored at \<open>origin\<close>, which
  pandas takes from the first timestamp (the start of its day); the first edge is the
  last grid point at or before the earliest timestamp, the last edge the first grid
  point after the latest one, and every bin between them is reported, with its size.
  An empty frame gives an empty series.
\<close>

definition bin_labels :: "int \<Rightarrow> int list \<Rightarrow> int list" where
  "bin_labels origin ts =
     (if ts = [] then []
      else (let first = Min (set ts);
                last = Max (set ts);
                fresult = first - (first - origin) mod HOUR_MS;
                lresult = last + (HOUR_MS - (last - origin) mod HOUR_MS)
            in map (\<lambda>k. fresult + int k * HOUR_MS) [0..<nat ((lresult - fresult) div HOUR_MS)]))"

definition bin_size :: "int list \<Rightarrow> int \<Rightarrow> nat" where
  "bin_size ts e = length (filter (\<lambda>t. e \<le> t \<and> t < e + HOUR_MS) ts)"

definition resample_1H :: "int \<Rightarrow> int list \<Rightarrow> (int \<times> nat) list" where
  "resample_1H origin ts = map (\<lambda>e. (e, bin_size ts e)) (bin_labels origin ts)"

definition instants :: "'n event list \<Rightarrow> int list" where
  "instants fd = map (\<lambda>r. instant (Time_Central r)) fd"

definition df_ts :: "(int \<Rightarrow> int) \<Rightarrow> 'n event list \<Rightarrow> (int \<times> nat) list" where
  "df_ts start_day fd =
     (let ts = instants fd
      in if ts = [] then [] else resample_1H (start_day (Min (set ts))) ts)"





subsection \<open>Auxiliary notions and sample data\<close>

text \<open>The count an association list holds for a key (0 when the key is absent).\<close>

fun tally :: "('k \<times> nat) list \<Rightarrow> 'k \<Rightarrow> nat" where
  "tally [] k = 0"
| "tally ((k', n) # rest) k = (if k = k' then n else tally rest k)"

text \<open>
  The part of the \<^verbatim>\<open>America/Chicago\<close> table that covers 2024: standard time
  (UTC\<open>-\<close>6) until 2024-03-10 08:00 UTC, daylight time (UTC\<open>-\<close>5) until 2024-11-03
  07:00 UTC, standard time after.
\<close>

definition chicago_2024 :: zone where
  "chicago_2024 =
     \<lparr>initial_offset = - 21600000,
      transitions = [(1710057600000, - 18000000), (1730617200000, - 21600000)]\<rparr>"

text \<open>
  A feed of six features: 2024-01-15 18:30 UTC near Tokyo, one without magnitude,
  2024-07-15 18:30 and 18:45 UTC off Chile, 2024-07-16 00:10 UTC with a place that has
  no comma, and one without depth; and the table that \<^verbatim>\<open>load_data\<close> builds
  from it.
\<close>

definition sample_feed :: "int raw_feature list" where
  "sample_feed =
     [\<lparr>place = Some (str ''10km SE of Tokyo, Japan''), mag = Some 5, time = 1705343400000,
        lon = 139, lat = 35, depth = Some 10\<rparr>,
      \<lparr>place = Some (str ''Fiji''), mag = None, time = 1705343500000,
        lon = 178, lat = - 17, depth = Some 600\<rparr>,
      \<lparr>place = Some (str ''40km W of Valparaiso, Chile''), mag = Some 6, time = 1721068200000,
        lon = - 72, lat = - 33, depth = Some 35\<rparr>,
      \<lparr>place = Some (str ''45km W of Valparaiso, Chile''), mag = Some 3, time = 1721069100000,
        lon = - 72, lat = - 33, depth = Some 30\<rparr>,
      \<lparr>place = Some (str ''Kermadec Islands''), mag = Some 4, time = 1721088600000,
        lon = - 178, lat = - 30, depth = Some 20\<rparr>,
      \<lparr>place = Some (str ''Alaska''), mag = Some 2, time = 1721088600001,
        lon = - 150, lat = 61, depth = None\<rparr>]"

definition sample_table :: "int event list" where
  "sample_table =
     [\<lparr>Place = Some (str ''10km SE of Tokyo, Japan''), Magnitude = 5,
        Time_UTC = 1705343400000, Depth_km = 10, Longitude = 139, Latitude = 35,
        Time_Central = \<lparr>instant = 1705343400000, utcoffset = - 21600000\<rparr>,
        Hour = 12, Date = (2024, 1, 15), Year = 2024, Country = str ''Japan''\<rparr>,
      \<lparr>Place = Some (str ''40km W of Valparaiso, Chile''), Magnitude = 6,
        Time_UTC = 1721068200000, Depth_km = 35, Longitude = - 72, Latitude = - 33,
        Time_Central = \<lparr>instant = 1721068200000, utcoffset = - 18000000\<rparr>,
        Hour = 13, Date = (2024, 7, 15), Year = 2024, Country = str ''Chile''\<rparr>,
      \<lparr>Place = Some (str ''45km W of Valparaiso, Chile''), Magnitude = 3,
        Time_UTC = 1721069100000, Depth_km = 30, Longitude = - 72, Latitude = - 33,
        Time_Central = \<lparr>instant = 1721069100000, utcoffset = - 18000000\<rparr>,
        Hour = 13, Date = (2024, 7, 15), Year = 2024, Country = str ''Chile''\<rparr>,
      \<lparr>Place = Some (str ''Kermadec Islands''), Magnitude = 4,
        Time_UTC = 1721088600000, Depth_km = 20, Longitude = - 178, Latitude = - 30,
        Time_Central = \<lparr>instant = 1721088600000, utcoffset = - 18000000\<rparr>,
        Hour = 19, Date = (2024, 7, 15), Year = 2024, Country = str ''Unknown''\<rparr>]"

text \<open>The start of the Central daylight-time day of an instant.\<close>

definition cdt_start_day :: "int \<Rightarrow> int" where
  "cdt_start_day t = t - (t - 18000000) mod DAY_MS"

section \<open>Properties\<close>

subsection \<open>The country label\<close>

lemma dotstar_dollar_no_lf: "LF \<notin> set r \<Longrightarrow> dotstar_dollar r = Some r"
  by (induction r) auto

lemma spaces_group_no_lf: "LF \<notin> set r \<Longrightarrow> spaces_group r = Some (dropWhile is_space r)"
  by (induction r) (auto simp: dotstar_dollar_no_lf)

lemma re_search_no_lf:
  "COMMA \<in> set s \<Longrightarrow> LF \<notin> set s \<Longrightarrow> re_search s = Some (lstrip (after_first_comma s))"
  by (induction s) (auto simp: spaces_group_no_lf lstrip_def after_first_comma_def)

text \<open>
  C1, as the code has it. For a place with at least one comma and no line feed, the
  country is what follows the \<^emph>\<open>first\<close> comma, without its leading white space
  (white space at the end is kept); for a place with no comma it is \<open>Unknown\<close>.
\<close>

theorem country_first_comma:
  "(COMMA \<in> set s \<longrightarrow> LF \<notin> set s \<longrightarrow>
      country_of (Some s) = Inr (lstrip (after_first_comma s)))
   \<and> (COMMA \<notin> set s \<longrightarrow> country_of (Some s) = Inr (str ''Unknown''))"
  by (simp add: country_of_def re_search_no_lf)

theorem country_first_comma_witness:
  "country_of (Some (str ''10km SE of Tokyo, Japan'')) = Inr (str ''Japan'')
   \<and> country_of (Some (str ''Kuril Islands, Russia, Asia '')) = Inr (str ''Russia, Asia '')
   \<and> country_of (Some (str ''Unknown Region'')) = Inr (str ''Unknown'')"
  using country_first_comma [of "str ''10km SE of Tokyo, Japan''"]
    country_first_comma [of "str ''Kuril Islands, Russia, Asia ''"]
    country_first_comma [of "str ''Unknown Region''"]
  by (simp add: str_def COMMA_def LF_def is_space_def lstrip_def after_first_comma_def)

text \<open>
  C1 as the specification states it fails: on \<open>A, B, C\<close> the country is
  \<open>B, C\<close>, not \<open>C\<close>; white space at the end is not trimmed; and a line feed
  after the only comma, with text behind it, leaves the search without a match.
\<close>

theorem country_last_comma_counterexample:
  "country_of (Some (str ''A, B, C'')) = Inr (str ''B, C'')
   \<and> country_of (Some (str ''A, B, C'')) \<noteq> Inr (str ''C'')
   \<and> country_of (Some (str ''A, B '')) = Inr (str ''B '')
   \<and> country_of (Some [97, COMMA, 98, LF, 99]) = Inl AttributeError"
  by (simp add: country_of_def str_def COMMA_def LF_def is_space_def at_dollar_def)

subsection \<open>The normalizer\<close>




subsection \<open>The table\<close>

lemma sample_normalize:
  "normalize sample_feed =
     [\<lparr>Place = Some (str ''10km SE of Tokyo, Japan''), Magnitude = 5,
        Time_UTC = 1705343400000, Depth_km = 10, Longitude = 139, Latitude = 35\<rparr>,
      \<lparr>Place = Some (str ''40km W of Valparaiso, Chile''), Magnitude = 6,
        Time_UTC = 1721068200000, Depth_km = 35, Longitude = - 72, Latitude = - 33\<rparr>,
      \<lparr>Place = Some (str ''45km W of Valparaiso, Chile''), Magnitude = 3,
        Time_UTC = 1721069100000, Depth_km = 30, Longitude = - 72, Latitude = - 33\<rparr>,
      \<lparr>Place = Some (str ''Kermadec Islands''), Magnitude = 4,
        Time_UTC = 1721088600000, Depth_km = 20, Longitude = - 178, Latitude = - 30\<rparr>]"
  by (simp add: normalize_def sample_feed_def record_of_def to_datetime_def)

lemma sample_load: "load_data chicago_2024 sample_feed = Inr sample_table"
  unfolding load_data_def sample_normalize Let_def
  by (simp add: country_of_def str_def COMMA_def LF_def is_space_def at_dollar_def
    enrich_def Let_def tz_convert_def utcoffset_at_def chicago_2024_def hour_of_def
    date_of_def year_of_def wall_clock_def HOUR_MS_def DAY_MS_def civil_of_days_def
    days_to_yearsdays_def is_leapyear_def month_lengths_def sample_table_def)








text \<open>
  C6. With no usable record the table is not built: \<^verbatim>\<open>load_data\<close> raises
  \<^verbatim>\<open>KeyError\<close> at \<^verbatim>\<open>df["Time_UTC"]\<close>, both on an empty feed and on a feed
  whose only feature has no magnitude.
\<close>

theorem load_data_empty_KeyError:
  "load_data z ([] :: int raw_feature list) = Inl (KeyError (str ''Time_UTC''))
   \<and> load_data z [\<lparr>place = Some (str ''Fiji''), mag = None, time = 1705343500000,
                    lon = (178 :: int), lat = - 17, depth = Some 600\<rparr>]
       = Inl (KeyError (str ''Time_UTC''))"
  by (simp add: normalize_def load_data_def)

text \<open>
  C10. A feature with a magnitude and a depth but a \<^verbatim>\<open>null\<close> place passes the
  check of the normalizer, the country function fails on its place with
  \<^verbatim>\<open>TypeError\<close>, and so does \<^verbatim>\<open>load_data\<close>.
\<close>

theorem place_null_TypeError:
  "normalize [\<lparr>place = None, mag = Some (5 :: int), time = 1705343400000,
               lon = 139, lat = 35, depth = Some 10\<rparr>]
     = [\<lparr>Place = None, Magnitude = 5, Time_UTC = 1705343400000, Depth_km = 10,
         Longitude = 139, Latitude = 35\<rparr>]
   \<and> country_of None = Inl TypeError
   \<and> load_data z [\<lparr>place = None, mag = Some (5 :: int), time = 1705343400000,
                    lon = 139, lat = 35, depth = Some 10\<rparr>]
       = Inl TypeError"
  by (simp add: normalize_def record_of_def to_datetime_def country_of_def load_data_def)

subsection \<open>The filter\<close>

text \<open>
  C4. The filter keeps, in the order of the table, exactly the rows of the target year
  whose country is in the selection, an empty selection admitting every country.
\<close>

theorem filtered_df_spec:
  "filtered_df y cs df = filter (\<lambda>r. Year r = y \<and> (cs = [] \<or> Country r \<in> set cs)) df
   \<and> subseq (filtered_df y cs df) df"
  by (auto simp: filtered_df_def Let_def intro: filter_cong)

theorem filtered_df_spec_witness:
  "map Country (filtered_df 2024 [str ''Japan'', str ''Chile''] sample_table)
     = [str ''Japan'', str ''Chile'', str ''Chile'']
   \<and> filtered_df 2024 [] sample_table = sample_table
   \<and> filtered_df 2023 [] sample_table = []"
proof -
  have "filtered_df y cs sample_table
      = filter (\<lambda>r. Year r = y \<and> (cs = [] \<or> Country r \<in> set cs)) sample_table" for y cs
    using filtered_df_spec [of y cs sample_table] by (rule conjunct1)
  then show ?thesis
    by (simp add: sample_table_def str_def)
qed


subsection \<open>Grouped counts\<close>

lemma bump_keys: "fst ` set (bump k acc) = insert k (fst ` set acc)"
proof (induction acc)
  case Nil
  then show ?case by simp
next
  case (Cons a acc)
  obtain k' n where a: "a = (k', n)" by (cases a)
  from Cons.IH show ?case by (cases "k = k'") (auto simp: a)
qed

lemma bump_distinct: "distinct (map fst acc) \<Longrightarrow> distinct (map fst (bump k acc))"
proof (induction acc)
  case Nil
  then show ?case by simp
next
  case (Cons a acc)
  obtain k' n where a: "a = (k', n)" by (cases a)
  show ?case
  proof (cases "k = k'")
    case True
    with Cons.prems show ?thesis by (simp add: a)
  next
    case False
    from Cons.prems have "k' \<notin> fst ` set acc" and "distinct (map fst acc)"
      by (simp_all add: a)
    moreover have "fst ` set (bump k acc) = insert k (fst ` set acc)"
      by (rule bump_keys)
    ultimately show ?thesis
      using False Cons.IH by (simp add: a)
  qed
qed

lemma tally_bump: "tally (bump k acc) j = (if j = k then Suc (tally acc k) else tally acc j)"
  by (induction acc) auto

lemma tally_mem: "distinct (map fst acc) \<Longrightarrow> (k, c) \<in> set acc \<Longrightarrow> tally acc k = c"
  by (induction acc) (auto simp: rev_image_eqI)

lemma fold_bump_keys: "fst ` set (fold bump ks acc) = set ks \<union> fst ` set acc"
  by (induction ks arbitrary: acc) (auto simp: bump_keys)

lemma fold_bump_distinct:
  "distinct (map fst acc) \<Longrightarrow> distinct (map fst (fold bump ks acc))"
  by (induction ks arbitrary: acc) (auto simp: bump_distinct)

lemma fold_bump_tally:
  "tally (fold bump ks acc) j = tally acc j + length (filter (\<lambda>k. k = j) ks)"
  by (induction ks arbitrary: acc) (auto simp: tally_bump)

lemma group_sizes_distinct: "distinct (map fst (group_sizes ks))"
  by (simp add: group_sizes_def fold_bump_distinct)

lemma group_sizes_count:
  assumes "(k, c) \<in> set (group_sizes ks)"
  shows "c = length (filter (\<lambda>k'. k' = k) ks)"
proof -
  from group_sizes_distinct assms have "tally (group_sizes ks) k = c"
    by (rule tally_mem)
  then show ?thesis by (simp add: group_sizes_def fold_bump_tally)
qed

lemma group_sizes_keys: "fst ` set (group_sizes ks) = set ks"
  by (simp add: group_sizes_def fold_bump_keys)

text \<open>
  C5. Every row \<open>(k, c)\<close> of the heat table has as its count \<open>c\<close> the number of
  rows of the filtered table whose date and hour are the pair \<open>k\<close>. The pairs of the
  heat table are exactly the pairs that occur in the filtered table, each once, in
  ascending order.
\<close>

theorem heat_df_counts:
  "(\<forall>k c. (k, c) \<in> set (heat_df fd) \<longrightarrow>
       c = length (filter (\<lambda>r. (Date r, Hour r) = k) fd))
   \<and> fst ` set (heat_df fd) = (\<lambda>r. (Date r, Hour r)) ` set fd
   \<and> distinct (map fst (heat_df fd))
   \<and> sorted (map fst (heat_df fd))"
proof -
  let ?ks = "map (\<lambda>r. (Date r, Hour r)) fd"
  have s: "set (heat_df fd) = set (group_sizes ?ks)"
    by (simp add: heat_df_def)
  have 1: "c = length (filter (\<lambda>r. (Date r, Hour r) = k) fd)"
    if "(k, c) \<in> set (heat_df fd)" for k c
  proof -
    from that s have "(k, c) \<in> set (group_sizes ?ks)" by simp
    then have "c = length (filter (\<lambda>k'. k' = k) ?ks)" by (rule group_sizes_count)
    also have "\<dots> = length (filter (\<lambda>r. (Date r, Hour r) = k) fd)"
      by (simp add: filter_map o_def)
    finally show ?thesis .
  qed
  have 2: "fst ` set (heat_df fd) = (\<lambda>r. (Date r, Hour r)) ` set fd"
    using group_sizes_keys [of ?ks] by (simp add: s)
  have "distinct (map fst (group_sizes ?ks))"
    by (rule group_sizes_distinct)
  then have 3: "distinct (map fst (heat_df fd))"
    unfolding heat_df_def by (simp add: distinct_map inj_on_def)
  have 4: "sorted (map fst (heat_df fd))"
    unfolding heat_df_def by (rule sorted_sort_key)
  from 1 2 3 4 show ?thesis by blast
qed

theorem heat_df_counts_witness:
  "heat_df sample_table =
     [(((2024, 1, 15), 12), 1), (((2024, 7, 15), 13), 2), (((2024, 7, 15), 19), 1)]
   \<and> length (filter (\<lambda>r. (Date r, Hour r) = ((2024, 7, 15), 13)) sample_table) = 2"
proof -
  have h: "heat_df sample_table =
     [(((2024, 1, 15), 12), 1), (((2024, 7, 15), 13), 2), (((2024, 7, 15), 19), 1)]"
    by (simp add: heat_df_def group_sizes_def sample_table_def)
  then have "(((2024, 7, 15), 13), 2) \<in> set (heat_df sample_table)" by simp
  with heat_df_counts [of sample_table]
  have "2 = length (filter (\<lambda>r. (Date r, Hour r) = ((2024, 7, 15), 13)) sample_table)"
    by blast
  with h show ?thesis by simp
qed


subsection \<open>The hourly series\<close>

lemma bucket_index:
  fixes H x q :: int
  assumes "0 < H"
  shows "(q * H \<le> x \<and> x < q * H + H) \<longleftrightarrow> q = x div H"
proof
  assume a: "q * H \<le> x \<and> x < q * H + H"
  have "x = H * q + (x - q * H)" by (simp add: algebra_simps)
  moreover from a have "0 \<le> x - q * H" and "x - q * H < H" by simp_all
  ultimately have "x div H = q" by (rule int_div_pos_eq)
  then show "q = x div H" by simp
next
  assume q: "q = x div H"
  have "H * (x div H) + x mod H = x" by simp
  moreover have "0 \<le> x mod H" and "x mod H < H" using assms by simp_all
  ultimately have "H * (x div H) \<le> x \<and> x < H * (x div H) + H" by linarith
  with q show "q * H \<le> x \<and> x < q * H + H" by (simp add: mult.commute)
qed

lemma grid_edges:
  fixes H origin first last :: int
  assumes H: "0 < H" and fl: "first \<le> last"
  defines "fresult \<equiv> first - (first - origin) mod H"
    and "lresult \<equiv> last + (H - (last - origin) mod H)"
  shows "\<exists>n. 0 < n \<and> (lresult - fresult) div H = int n
           \<and> fresult \<le> first \<and> first < fresult + H
           \<and> fresult + (int n - 1) * H \<le> last \<and> last < fresult + int n * H"
proof -
  let ?q1 = "(first - origin) div H" and ?q2 = "(last - origin) div H"
  have f: "fresult = origin + H * ?q1"
    unfolding fresult_def using minus_mod_eq_mult_div [of "first - origin" H] by simp
  have l: "lresult = origin + H * ?q2 + H"
    unfolding lresult_def using minus_mod_eq_mult_div [of "last - origin" H] by simp
  have q: "?q1 \<le> ?q2" using H fl by (simp add: zdiv_mono1)
  have d: "lresult - fresult = (?q2 - ?q1 + 1) * H"
    by (simp add: f l algebra_simps)
  have dv: "(lresult - fresult) div H = ?q2 - ?q1 + 1"
    unfolding d using H by simp
  define n where "n = nat (?q2 - ?q1 + 1)"
  have n: "int n = ?q2 - ?q1 + 1" and n0: "0 < n" using q by (simp_all add: n_def)
  have b1: "?q1 * H \<le> first - origin \<and> first - origin < ?q1 * H + H"
    using bucket_index [OF H, of ?q1 "first - origin"] by simp
  have b2: "?q2 * H \<le> last - origin \<and> last - origin < ?q2 * H + H"
    using bucket_index [OF H, of ?q2 "last - origin"] by simp
  have e: "fresult + (int n - 1) * H = origin + ?q2 * H"
    by (simp add: f n algebra_simps)
  have e2: "fresult + int n * H = origin + ?q2 * H + H"
    by (simp add: f n algebra_simps)
  have f2: "fresult = origin + ?q1 * H" by (simp add: f mult.commute)
  show ?thesis
    apply (rule exI [of _ n])
    unfolding e e2
    using n0 dv n b1 b2 by (simp add: f2)
qed

lemma filter_interval_split:
  fixes a b c :: int
  assumes "a \<le> b" and "b \<le> c"
  shows "length (filter (\<lambda>t. a \<le> t \<and> t < b) ts) + length (filter (\<lambda>t. b \<le> t \<and> t < c) ts)
         = length (filter (\<lambda>t. a \<le> t \<and> t < c) ts)"
  using assms by (induction ts) auto

lemma bins_sum:
  fixes H e0 :: int
  assumes "0 \<le> H"
  shows "sum_list (map (\<lambda>k. length (filter (\<lambda>t. e0 + int k * H \<le> t \<and> t < e0 + int k * H + H) ts))
                    [0..<n])
         = length (filter (\<lambda>t. e0 \<le> t \<and> t < e0 + int n * H) ts)"
proof (induction n)
  case 0
  then show ?case by simp
next
  case (Suc n)
  have "e0 \<le> e0 + int n * H" and "e0 + int n * H \<le> e0 + int n * H + H"
    using assms by simp_all
  from filter_interval_split [OF this, of ts] Suc show ?case
    by (simp add: algebra_simps)
qed

lemma bin_labels_shape:
  assumes "ts \<noteq> []"
  shows "\<exists>e0 n. 0 < n \<and> bin_labels origin ts = map (\<lambda>k. e0 + int k * HOUR_MS) [0..<n]
           \<and> e0 \<le> Min (set ts) \<and> Min (set ts) < e0 + HOUR_MS
           \<and> e0 + (int n - 1) * HOUR_MS \<le> Max (set ts) \<and> Max (set ts) < e0 + int n * HOUR_MS"
proof -
  have H: "0 < HOUR_MS" by (simp add: HOUR_MS_def)
  from assms have fl: "Min (set ts) \<le> Max (set ts)" by simp
  from grid_edges [OF H fl, of origin] obtain n where n: "0 < n"
    "(Max (set ts) + (HOUR_MS - (Max (set ts) - origin) mod HOUR_MS)
       - (Min (set ts) - (Min (set ts) - origin) mod HOUR_MS)) div HOUR_MS = int n"
    "Min (set ts) - (Min (set ts) - origin) mod HOUR_MS \<le> Min (set ts)"
    "Min (set ts) < Min (set ts) - (Min (set ts) - origin) mod HOUR_MS + HOUR_MS"
    "Min (set ts) - (Min (set ts) - origin) mod HOUR_MS + (int n - 1) * HOUR_MS \<le> Max (set ts)"
    "Max (set ts) < Min (set ts) - (Min (set ts) - origin) mod HOUR_MS + int n * HOUR_MS"
    by blast
  let ?e0 = "Min (set ts) - (Min (set ts) - origin) mod HOUR_MS"
  have "bin_labels origin ts = map (\<lambda>k. ?e0 + int k * HOUR_MS) [0..<n]"
    using assms n(2) by (simp add: bin_labels_def Let_def)
  with n show ?thesis by blast
qed

text \<open>
  C7. For a filtered table that is not empty, and whatever instant the grid is
  anchored at: the series is not empty; its labels are consecutive multiples of one
  hour from the first label, so every hour between the first and the last bucket
  appears, whether it has events or not; the size of a bucket is the number of rows
  whose instant lies in the bucket's right-open hour; the first bucket holds the
  earliest instant and the last bucket the latest; every row's instant lies in exactly
  one bucket; and the sizes add up to the number of rows.
\<close>

theorem hourly_series_partition:
  assumes "fd \<noteq> []"
  shows "df_ts sd fd \<noteq> []
    \<and> (\<forall>i < length (df_ts sd fd).
          fst (df_ts sd fd ! i) = fst (df_ts sd fd ! 0) + int i * HOUR_MS
          \<and> snd (df_ts sd fd ! i) =
              length (filter (\<lambda>t. fst (df_ts sd fd ! i) \<le> t \<and> t < fst (df_ts sd fd ! i) + HOUR_MS)
                        (instants fd)))
    \<and> fst (df_ts sd fd ! 0) \<le> Min (set (instants fd))
    \<and> Min (set (instants fd)) < fst (df_ts sd fd ! 0) + HOUR_MS
    \<and> fst (last (df_ts sd fd)) \<le> Max (set (instants fd))
    \<and> Max (set (instants fd)) < fst (last (df_ts sd fd)) + HOUR_MS
    \<and> (\<forall>t \<in> set (instants fd). \<exists>!i. i < length (df_ts sd fd)
          \<and> fst (df_ts sd fd ! i) \<le> t \<and> t < fst (df_ts sd fd ! i) + HOUR_MS)
    \<and> sum_list (map snd (df_ts sd fd)) = length fd"
proof -
  let ?ts = "instants fd"
  let ?out = "df_ts sd fd"
  have H: "0 < HOUR_MS" by (simp add: HOUR_MS_def)
  from assms have ne: "?ts \<noteq> []" by (simp add: instants_def)
  from bin_labels_shape [OF ne, of "sd (Min (set ?ts))"] obtain e0 n where
    n0: "0 < n"
    and labels: "bin_labels (sd (Min (set ?ts))) ?ts = map (\<lambda>k. e0 + int k * HOUR_MS) [0..<n]"
    and lo: "e0 \<le> Min (set ?ts)" "Min (set ?ts) < e0 + HOUR_MS"
    and hi: "e0 + (int n - 1) * HOUR_MS \<le> Max (set ?ts)" "Max (set ?ts) < e0 + int n * HOUR_MS"
    by blast
  have out: "?out = map (\<lambda>k. (e0 + int k * HOUR_MS, bin_size ?ts (e0 + int k * HOUR_MS))) [0..<n]"
    using ne by (simp add: df_ts_def Let_def resample_1H_def labels o_def)
  have len: "length ?out = n" by (simp add: out)
  have nth: "?out ! i = (e0 + int i * HOUR_MS, bin_size ?ts (e0 + int i * HOUR_MS))"
    if "i < n" for i
    using that by (simp add: out)
  have c1: "?out \<noteq> []" using n0 len by auto
  have c2: "\<forall>i < length ?out.
          fst (?out ! i) = fst (?out ! 0) + int i * HOUR_MS
          \<and> snd (?out ! i) =
              length (filter (\<lambda>t. fst (?out ! i) \<le> t \<and> t < fst (?out ! i) + HOUR_MS) ?ts)"
    using n0 by (simp add: len nth bin_size_def)
  have c3: "fst (?out ! 0) \<le> Min (set ?ts)" "Min (set ?ts) < fst (?out ! 0) + HOUR_MS"
    using n0 lo by (simp_all add: nth)
  have "last ?out = ?out ! (n - 1)" using c1 len by (simp add: last_conv_nth)
  then have lst: "fst (last ?out) = e0 + (int n - 1) * HOUR_MS"
    using n0 by (simp add: nth of_nat_diff)
  have c4: "fst (last ?out) \<le> Max (set ?ts)" "Max (set ?ts) < fst (last ?out) + HOUR_MS"
    using hi by (simp_all add: lst algebra_simps)
  have range: "e0 \<le> t \<and> t < e0 + int n * HOUR_MS" if "t \<in> set ?ts" for t
  proof -
    from that have "Min (set ?ts) \<le> t" "t \<le> Max (set ?ts)" by simp_all
    with lo hi show ?thesis by linarith
  qed
  have c5: "\<exists>!i. i < length ?out \<and> fst (?out ! i) \<le> t \<and> t < fst (?out ! i) + HOUR_MS"
    if t: "t \<in> set ?ts" for t
  proof -
    let ?q = "(t - e0) div HOUR_MS"
    from range [OF t] have r: "0 \<le> t - e0" "t - e0 < int n * HOUR_MS" by simp_all
    have q0: "0 \<le> ?q" using r(1) H by (simp add: pos_imp_zdiv_nonneg_iff)
    have "?q * HOUR_MS \<le> t - e0" using bucket_index [OF H, of ?q "t - e0"] by simp
    with r(2) have "?q * HOUR_MS < int n * HOUR_MS" by linarith
    with H have qn: "?q < int n" by (simp add: mult_less_cancel_right_pos)
    have in_bucket:
      "(e0 + int i * HOUR_MS \<le> t \<and> t < e0 + int i * HOUR_MS + HOUR_MS) \<longleftrightarrow> int i = ?q" for i
      using bucket_index [OF H, of "int i" "t - e0"] by auto
    show ?thesis
    proof (rule ex1I [of _ "nat ?q"])
      show "nat ?q < length ?out \<and> fst (?out ! nat ?q) \<le> t \<and> t < fst (?out ! nat ?q) + HOUR_MS"
        using q0 qn in_bucket [of "nat ?q"] by (simp add: len nth)
    next
      fix i
      assume a: "i < length ?out \<and> fst (?out ! i) \<le> t \<and> t < fst (?out ! i) + HOUR_MS"
      then have i: "i < n" by (simp add: len)
      from a have "e0 + int i * HOUR_MS \<le> t \<and> t < e0 + int i * HOUR_MS + HOUR_MS"
        unfolding nth [OF i] by simp
      with in_bucket [of i] show "i = nat ?q" by simp
    qed
  qed
  have "sum_list (map snd ?out)
      = sum_list (map (\<lambda>k. length (filter (\<lambda>t. e0 + int k * HOUR_MS \<le> t
                                   \<and> t < e0 + int k * HOUR_MS + HOUR_MS) ?ts)) [0..<n])"
    by (simp add: out o_def bin_size_def)
  also have "\<dots> = length (filter (\<lambda>t. e0 \<le> t \<and> t < e0 + int n * HOUR_MS) ?ts)"
    using H by (intro bins_sum) simp
  also have "\<dots> = length ?ts"
    using range by (simp add: filter_id_conv)
  finally have c6: "sum_list (map snd ?out) = length fd" by (simp add: instants_def)
  from c1 c2 c3 c4 c5 c6 show ?thesis by blast
qed

text \<open>
  On the three July rows of the sample table: two events in the hour from 18:00 UTC,
  five empty hours, one event in the hour from 00:00 UTC.
\<close>

theorem hourly_series_partition_witness:
  "filtered_df 2024 [str ''Chile'', str ''Unknown''] sample_table \<noteq> []
   \<and> df_ts cdt_start_day (filtered_df 2024 [str ''Chile'', str ''Unknown''] sample_table) =
      [(1721066400000, 2), (1721070000000, 0), (1721073600000, 0), (1721077200000, 0),
       (1721080800000, 0), (1721084400000, 0), (1721088000000, 1)]
   \<and> sum_list (map snd
        (df_ts cdt_start_day (filtered_df 2024 [str ''Chile'', str ''Unknown''] sample_table))) =
      length (filtered_df 2024 [str ''Chile'', str ''Unknown''] sample_table)"
proof -
  let ?fd = "filtered_df 2024 [str ''Chile'', str ''Unknown''] sample_table"
  have ts: "instants ?fd = [1721068200000, 1721069100000, 1721088600000]"
    by (simp add: filtered_df_def sample_table_def str_def instants_def)
  then have ne: "?fd \<noteq> []" by (auto simp: instants_def)
  have "df_ts cdt_start_day ?fd =
      [(1721066400000, 2), (1721070000000, 0), (1721073600000, 0), (1721077200000, 0),
       (1721080800000, 0), (1721084400000, 0), (1721088000000, 1)]"
    unfolding df_ts_def ts
    by (simp add: resample_1H_def bin_labels_def bin_size_def cdt_start_day_def
      HOUR_MS_def DAY_MS_def Let_def upt_conv_Cons)
  with ne hourly_series_partition [OF ne, of cdt_start_day] show ?thesis by simp
qed

subsection \<open>The aggregations as statements of the script\<close>


subsection \<open>Further properties\<close>

text \<open>
  The bar chart: every bar \<open>(c, n)\<close> has as its length \<open>n\<close> the number of rows of the
  filtered table whose country is \<open>c\<close>; the bars are the countries that occur in the
  table, each once, in order of falling count.
\<close>

theorem country_chart_counts:
  "(\<forall>c n. (c, n) \<in> set (country_chart fd) \<longrightarrow>
       n = length (filter (\<lambda>r. Country r = c) fd))
   \<and> fst ` set (country_chart fd) = Country ` set fd
   \<and> distinct (map fst (country_chart fd))
   \<and> sorted (map (\<lambda>(c, n). - int n) (country_chart fd))"
proof -
  let ?ks = "map Country fd"
  have s: "set (country_chart fd) = set (group_sizes ?ks)"
    by (simp add: country_chart_def)
  have 1: "n = length (filter (\<lambda>r. Country r = c) fd)"
    if "(c, n) \<in> set (country_chart fd)" for c n
  proof -
    from that s have "(c, n) \<in> set (group_sizes ?ks)" by simp
    then have "n = length (filter (\<lambda>k'. k' = c) ?ks)" by (rule group_sizes_count)
    also have "\<dots> = length (filter (\<lambda>r. Country r = c) fd)"
      by (simp add: filter_map o_def)
    finally show ?thesis .
  qed
  have 2: "fst ` set (country_chart fd) = Country ` set fd"
    using group_sizes_keys [of ?ks] by (simp add: s)
  have "distinct (map fst (group_sizes ?ks))"
    by (rule group_sizes_distinct)
  then have 3: "distinct (map fst (country_chart fd))"
    unfolding country_chart_def by (simp add: distinct_map inj_on_def)
  have 4: "sorted (map (\<lambda>(c, n). - int n) (country_chart fd))"
    unfolding country_chart_def by (rule sorted_sort_key)
  from 1 2 3 4 show ?thesis by blast
qed

theorem country_chart_counts_witness:
  "country_chart sample_table = [(str ''Chile'', 2), (str ''Japan'', 1), (str ''Unknown'', 1)]
   \<and> length (filter (\<lambda>r. Country r = str ''Chile'') sample_table) = 2"
proof -
  have h: "country_chart sample_table =
      [(str ''Chile'', 2), (str ''Japan'', 1), (str ''Unknown'', 1)]"
    by (simp add: country_chart_def group_sizes_def sample_table_def str_def)
  then have "(str ''Chile'', 2) \<in> set (country_chart sample_table)" by simp
  with country_chart_counts [of sample_table]
  have "2 = length (filter (\<lambda>r. Country r = str ''Chile'') sample_table)"
    by blast
  with h show ?thesis by simp
qed

lemma apply_country_labels:
  assumes "\<forall>x \<in> set xs. \<exists>s. x = Some s \<and> LF \<notin> set s"
  shows "apply_country xs = Inr (map (\<lambda>x. label_of (the x)) xs)"
  using assms
proof (induction xs)
  case Nil
  then show ?case by simp
next
  case (Cons x xs)
  then obtain s where x: "x = Some s" and s: "LF \<notin> set s" by auto
  have "country_of x = Inr (label_of s)"
    using s by (simp add: x country_of_def label_of_def re_search_no_lf)
  moreover from Cons have "apply_country xs = Inr (map (\<lambda>x. label_of (the x)) xs)" by simp
  ultimately show ?case by (simp add: x)
qed

text \<open>
  When at least one feature has a magnitude and a depth, and the place of each such
  feature is a string without a line feed, \<^verbatim>\<open>load_data\<close> returns a table: one row
  for each of these features, in order, made of the feature's record, its Central-time
  fields and its country label.
\<close>

theorem load_data_returns_table:
  assumes "normalize data \<noteq> []"
    and "\<forall>r \<in> set (normalize data). \<exists>s. Place r = Some s \<and> LF \<notin> set s"
  shows "load_data z data =
           Inr (map (\<lambda>r. enrich z r (label_of (the (Place r)))) (normalize data))"
proof -
  from assms(2) have "\<forall>x \<in> set (map Place (normalize data)). \<exists>s. x = Some s \<and> LF \<notin> set s"
    by auto
  then have "apply_country (map Place (normalize data)) =
      Inr (map (\<lambda>x. label_of (the x)) (map Place (normalize data)))"
    by (rule apply_country_labels)
  moreover have "map (\<lambda>(r, c). enrich z r c)
        (zip rs (map (\<lambda>x. label_of (the x)) (map Place rs)))
      = map (\<lambda>r. enrich z r (label_of (the (Place r)))) rs" for rs :: "'a row list"
    by (induction rs) simp_all
  ultimately show ?thesis
    using assms(1) by (simp add: load_data_def Let_def)
qed

theorem load_data_returns_table_witness:
  "normalize sample_feed \<noteq> []
   \<and> load_data chicago_2024 sample_feed =
       Inr (map (\<lambda>r. enrich chicago_2024 r (label_of (the (Place r)))) (normalize sample_feed))
   \<and> load_data chicago_2024 sample_feed = Inr sample_table"
proof -
  have ne: "normalize sample_feed \<noteq> []"
    by (simp add: sample_normalize)
  have pl: "\<forall>r \<in> set (normalize sample_feed). \<exists>s. Place r = Some s \<and> LF \<notin> set s"
    by (simp add: sample_normalize str_def LF_def)
  from load_data_returns_table [OF ne pl, of chicago_2024] ne sample_load show ?thesis
    by simp
qed

text \<open>
  The offset of a zone at an instant: with the transitions in ascending order it is the
  offset of the last transition at or before the instant, and the initial offset when
  there is none.
\<close>

theorem utcoffset_at_latest_transition:
  assumes "sorted (map fst (transitions z))"
  shows "utcoffset_at z t =
           (case filter (\<lambda>(u, off). u \<le> t) (transitions z) of
              [] \<Rightarrow> initial_offset z
            | x # xs \<Rightarrow> snd (last (x # xs)))"
proof -
  have "offset_scan cur trs t =
          (case filter (\<lambda>(u, off). u \<le> t) trs of [] \<Rightarrow> cur | x # xs \<Rightarrow> snd (last (x # xs)))"
    if "sorted (map fst trs)" for cur trs
    using that
  proof (induction trs arbitrary: cur)
    case Nil
    then show ?case by simp
  next
    case (Cons p trs)
    obtain u off where p: "p = (u, off)" by (cases p)
    from Cons.prems have srt: "sorted (map fst trs)" and le: "\<forall>q \<in> set trs. u \<le> fst q"
      by (simp_all add: p)
    show ?case
    proof (cases "u \<le> t")
      case True
      with Cons.IH [OF srt, of off] show ?thesis
        by (simp add: p split: list.splits)
    next
      case False
      with le have "filter (\<lambda>(u, off). u \<le> t) trs = []"
        by (auto simp: filter_empty_conv)
      with False show ?thesis by (simp add: p)
    qed
  qed
  from this [OF assms] show ?thesis by (simp add: utcoffset_at_def)
qed

theorem utcoffset_at_latest_transition_witness:
  "sorted (map fst (transitions chicago_2024))
   \<and> utcoffset_at chicago_2024 1705343400000 = - 21600000
   \<and> utcoffset_at chicago_2024 1721068200000 = - 18000000
   \<and> utcoffset_at chicago_2024 1731000000000 = - 21600000"
proof -
  have s: "sorted (map fst (transitions chicago_2024))"
    by (simp add: chicago_2024_def)
  from utcoffset_at_latest_transition [OF s, of 1705343400000]
    utcoffset_at_latest_transition [OF s, of 1721068200000]
    utcoffset_at_latest_transition [OF s, of 1731000000000] s
  show ?thesis by (simp add: chicago_2024_def)
qed

end
